theory Spec2Isabelle
  imports Main "HOL-Library.Word" "HOL-Library.AList"
begin

section \<open>Data model\<close>

text \<open>
  The route types of \<^verbatim>\<open>routev1\<close>, the object metadata of \<^verbatim>\<open>metav1\<close> and the
  console configuration of \<^verbatim>\<open>operatorv1\<close>, with the fields that
  \<^verbatim>\<open>pkg/console/subresource/route/route.go\<close> reads or writes. Go's string-typed
  enumerations (\<^verbatim>\<open>TLSTerminationType\<close>, \<^verbatim>\<open>ConditionStatus\<close>, ...) stay strings: an object
  fetched from the store may carry any value. A Go map with string keys is an association
  list in which each key occurs once, a pointer field that may be nil is an \<open>option\<close>, and
  a slice is a list (nil and empty slices are the same list).
\<close>

type_synonym gomap = "(string \<times> string) list"

record OwnerReference =
  owner_APIVersion :: string
  owner_Kind :: string
  owner_Name :: string
  owner_UID :: string
  owner_Controller :: "bool option"

record ObjectMeta =
  meta_Name :: string
  meta_Namespace :: string
  meta_Labels :: gomap
  meta_Annotations :: gomap
  meta_OwnerReferences :: "OwnerReference list"

record RouteTargetReference =
  to_Kind :: string
  to_Name :: string
  to_Weight :: "32 word option"

datatype IntOrString = IntVal "32 word" | StrVal string

record RoutePort =
  port_TargetPort :: IntOrString

record TLSConfig =
  tls_Termination :: string
  tls_Certificate :: string
  tls_Key :: string
  tls_CACertificate :: string
  tls_DestinationCACertificate :: string
  tls_InsecureEdgeTerminationPolicy :: string

record RouteSpec =
  spec_Host :: string
  spec_Path :: string
  spec_To :: RouteTargetReference
  spec_AlternateBackends :: "RouteTargetReference list"
  spec_Port :: "RoutePort option"
  spec_TLS :: "TLSConfig option"
  spec_WildcardPolicy :: string

record RouteIngressCondition =
  cond_Type :: string
  cond_Status :: string
  cond_Reason :: string
  cond_Message :: string

record RouteIngress =
  ingress_Host :: string
  ingress_RouterName :: string
  ingress_Conditions :: "RouteIngressCondition list"

record RouteStatus =
  status_Ingress :: "RouteIngress list"

record Route =
  route_ObjectMeta :: ObjectMeta
  route_Spec :: RouteSpec
  route_Status :: RouteStatus

text \<open>The operator configuration \<^verbatim>\<open>operatorv1.Console\<close>, down to the route settings.\<close>

record SecretNameReference =
  secret_Name :: string

record ConsoleConfigRoute =
  cfg_Hostname :: string
  cfg_Secret :: SecretNameReference

record ConsoleSpec =
  console_Route :: ConsoleConfigRoute

record Console =
  console_ObjectMeta :: ObjectMeta
  console_Spec :: ConsoleSpec

text \<open>\<^verbatim>\<open>type CustomTLSCert struct { Certificate string; Key string }\<close>\<close>

record CustomTLSCert =
  cert_Certificate :: string
  cert_Key :: string

subsection \<open>Constants\<close>

text \<open>\<^verbatim>\<open>const defaultIngressController = "default"\<close>\<close>

definition defaultIngressController :: string where
  "defaultIngressController = ''default''"

text \<open>
  The string constants of \<^verbatim>\<open>routev1\<close> and \<^verbatim>\<open>corev1\<close> that the code names.
\<close>

definition TLSTerminationEdge :: string where
  "TLSTerminationEdge = ''edge''"

definition TLSTerminationReencrypt :: string where
  "TLSTerminationReencrypt = ''reencrypt''"

definition InsecureEdgeTerminationPolicyRedirect :: string where
  "InsecureEdgeTerminationPolicyRedirect = ''Redirect''"

definition WildcardPolicyNone :: string where
  "WildcardPolicyNone = ''None''"

definition RouteAdmitted :: string where
  "RouteAdmitted = ''Admitted''"

definition ConditionTrue :: string where
  "ConditionTrue = ''True''"

text \<open>
  The package \<^verbatim>\<open>pkg/api\<close> (service, port and route names) and the helpers
  \<^verbatim>\<open>util.SharedMeta\<close> and \<^verbatim>\<open>util.OwnerRefFrom\<close> are not part of the file under study.
  The builders take them as a parameter, so every statement about the builders holds for
  any value of these names.
\<close>

record api =
  OpenShiftConsoleServiceName :: string
  OpenshiftConsoleRedirectServiceName :: string
  ConsoleContainerPortName :: string
  RedirectContainerPortName :: string
  OpenshiftConsoleCustomRouteName :: string
  SharedMeta :: ObjectMeta
  OwnerRefFrom :: "Console \<Rightarrow> OwnerReference"

section \<open>Status reader\<close>

text \<open>
  \<^verbatim>\<open>isIngressAdmitted\<close>: the loop runs over every condition and sets the flag, it never
  clears it and never leaves early. The flag is the accumulator of the recursion.
\<close>

fun isIngressAdmitted_loop :: "bool \<Rightarrow> RouteIngressCondition list \<Rightarrow> bool" where
  "isIngressAdmitted_loop admitted [] = admitted"
| "isIngressAdmitted_loop admitted (condition # rest) =
     (if cond_Type condition = RouteAdmitted \<and> cond_Status condition = ConditionTrue
      then isIngressAdmitted_loop True rest
      else isIngressAdmitted_loop admitted rest)"

definition isIngressAdmitted :: "RouteIngress \<Rightarrow> bool" where
  "isIngressAdmitted ingress = isIngressAdmitted_loop False (ingress_Conditions ingress)"

text \<open>\<^verbatim>\<open>IsAdmitted\<close>: returns true at the first admitted ingress, false after the loop.\<close>

fun IsAdmitted_loop :: "RouteIngress list \<Rightarrow> bool" where
  "IsAdmitted_loop [] = False"
| "IsAdmitted_loop (ingress # rest) =
     (if isIngressAdmitted ingress then True else IsAdmitted_loop rest)"

definition IsAdmitted :: "Route \<Rightarrow> bool" where
  "IsAdmitted route = IsAdmitted_loop (status_Ingress (route_Status route))"

text \<open>
  \<^verbatim>\<open>GetCanonicalHost\<close>: two \<^verbatim>\<open>continue\<close> guards, then the return of the host; the empty
  string after the loop. The log calls have no effect on the result.
\<close>

fun GetCanonicalHost_loop :: "RouteIngress list \<Rightarrow> string" where
  "GetCanonicalHost_loop [] = ''''"
| "GetCanonicalHost_loop (ingress # rest) =
     (if ingress_RouterName ingress \<noteq> defaultIngressController
      then GetCanonicalHost_loop rest
      else if \<not> isIngressAdmitted ingress
      then GetCanonicalHost_loop rest
      else ingress_Host ingress)"

definition GetCanonicalHost :: "Route \<Rightarrow> string" where
  "GetCanonicalHost route = GetCanonicalHost_loop (status_Ingress (route_Status route))"

text \<open>
  The status reader as the specification words it: an entry is admitted when one of its
  conditions has the type \<open>Admitted\<close> and the status \<open>True\<close>; the canonical host is the
  host of the first entry of the default controller that is admitted.
\<close>

definition admitted_condition :: "RouteIngressCondition \<Rightarrow> bool" where
  "admitted_condition c \<longleftrightarrow> cond_Type c = ''Admitted'' \<and> cond_Status c = ''True''"

definition qualifies :: "RouteIngress \<Rightarrow> bool" where
  "qualifies i \<longleftrightarrow>
     ingress_RouterName i = ''default'' \<and> list_ex admitted_condition (ingress_Conditions i)"

definition first_qualifying_host :: "RouteIngress list \<Rightarrow> string" where
  "first_qualifying_host ingresses =
     (case filter qualifies ingresses of [] \<Rightarrow> '''' | i # _ \<Rightarrow> ingress_Host i)"

section \<open>Spec builder\<close>

text \<open>
  \<^verbatim>\<open>IsCustomRouteSet\<close> and \<^verbatim>\<open>IsCustomRouteSecretSet\<close> take a pointer that may be nil.
\<close>

definition IsCustomRouteSet :: "Console option \<Rightarrow> bool" where
  "IsCustomRouteSet operatorConfig =
     (case operatorConfig of
        None \<Rightarrow> False
      | Some c \<Rightarrow> length (cfg_Hostname (console_Route (console_Spec c))) \<noteq> 0)"

definition IsCustomRouteSecretSet :: "Console option \<Rightarrow> bool" where
  "IsCustomRouteSecretSet operatorConfig =
     (case operatorConfig of
        None \<Rightarrow> False
      | Some c \<Rightarrow> length (secret_Name (cfg_Secret (console_Route (console_Spec c)))) \<noteq> 0)"

definition toService :: "string \<Rightarrow> RouteTargetReference" where
  "toService serviceName =
     \<lparr>to_Kind = ''Service'', to_Name = serviceName, to_Weight = Some 100\<rparr>"

definition port :: "string \<Rightarrow> RoutePort option" where
  "port p = Some \<lparr>port_TargetPort = StrVal p\<rparr>"

definition tls :: "CustomTLSCert option \<Rightarrow> string \<Rightarrow> TLSConfig option" where
  "tls tlsConfig terminationType =
     (let t = \<lparr>tls_Termination = terminationType,
                tls_Certificate = '''',
                tls_Key = '''',
                tls_CACertificate = '''',
                tls_DestinationCACertificate = '''',
                tls_InsecureEdgeTerminationPolicy = InsecureEdgeTerminationPolicyRedirect\<rparr>
      in case tlsConfig of
           None \<Rightarrow> Some t
         | Some c \<Rightarrow> Some (t\<lparr>tls_Certificate := cert_Certificate c, tls_Key := cert_Key c\<rparr>))"

definition wildcard :: string where
  "wildcard = WildcardPolicyNone"

text \<open>The zero values of Go's structs, for the fields a literal leaves out.\<close>

definition zero_RouteSpec :: RouteSpec where
  "zero_RouteSpec =
     \<lparr>spec_Host = '''', spec_Path = '''',
      spec_To = \<lparr>to_Kind = '''', to_Name = '''', to_Weight = None\<rparr>,
      spec_AlternateBackends = [], spec_Port = None, spec_TLS = None,
      spec_WildcardPolicy = ''''\<rparr>"

definition DefaultStub :: "api \<Rightarrow> Route" where
  "DefaultStub a =
     \<lparr>route_ObjectMeta = SharedMeta a,
      route_Spec = zero_RouteSpec,
      route_Status = \<lparr>status_Ingress = []\<rparr>\<rparr>"

text \<open>
  Modelled from the spec: \<^verbatim>\<open>util.AddOwnerRef\<close>, which is not in the file under study.
  The specification says of both builders that they set the owner reference derived from
  the parent configuration object; the model adds the reference to the owner references
  of the object's metadata and changes nothing else.
\<close>

definition AddOwnerRef :: "Route \<Rightarrow> OwnerReference \<Rightarrow> Route" where
  "AddOwnerRef obj ownerRef =
     obj\<lparr>route_ObjectMeta :=
       (route_ObjectMeta obj)\<lparr>meta_OwnerReferences :=
          meta_OwnerReferences (route_ObjectMeta obj) @ [ownerRef]\<rparr>\<rparr>"

text \<open>
  \<^verbatim>\<open>DefaultRoute\<close> and \<^verbatim>\<open>CustomRoute\<close>. The configuration object \<open>cr\<close> is a value here:
  both are stated for a configuration object that exists. The three local variables that
  \<^verbatim>\<open>DefaultRoute\<close> initialises and then overwrites under \<^verbatim>\<open>IsCustomRouteSet(cr)\<close> are
  bound by that one test.
\<close>

definition DefaultRoute :: "api \<Rightarrow> Console \<Rightarrow> Route" where
  "DefaultRoute a cr =
     (let route = DefaultStub a;
          (usePort, tlsTermination, serviceName) =
            (if IsCustomRouteSet (Some cr)
             then (RedirectContainerPortName a, TLSTerminationEdge,
                   OpenshiftConsoleRedirectServiceName a)
             else (ConsoleContainerPortName a, TLSTerminationReencrypt,
                   OpenShiftConsoleServiceName a));
          route = route\<lparr>route_Spec := zero_RouteSpec
                    \<lparr>spec_To := toService serviceName,
                     spec_Port := port usePort,
                     spec_TLS := tls None tlsTermination,
                     spec_WildcardPolicy := wildcard\<rparr>\<rparr>
      in AddOwnerRef route (OwnerRefFrom a cr))"

definition CustomRoute :: "api \<Rightarrow> Console \<Rightarrow> CustomTLSCert option \<Rightarrow> Route" where
  "CustomRoute a cr tlsConfig =
     (let route = DefaultStub a;
          route = route\<lparr>route_ObjectMeta :=
                    (route_ObjectMeta route)\<lparr>meta_Name := OpenshiftConsoleCustomRouteName a\<rparr>\<rparr>;
          route = route\<lparr>route_Spec := zero_RouteSpec
                    \<lparr>spec_Host := cfg_Hostname (console_Route (console_Spec cr)),
                     spec_To := toService (OpenShiftConsoleServiceName a),
                     spec_Port := port (ConsoleContainerPortName a),
                     spec_TLS := tls tlsConfig TLSTerminationReencrypt,
                     spec_WildcardPolicy := wildcard\<rparr>\<rparr>
      in AddOwnerRef route (OwnerRefFrom a cr))"

section \<open>Reconcile operation\<close>

subsection \<open>Errors, objects behind pointers, and the store client\<close>

text \<open>
  The errors a store call can return. \<^verbatim>\<open>apierrors.IsNotFound\<close> tells the not-found error
  from every other one; a nil error is not a not-found error.
\<close>

datatype error = NotFound | StoreError string

definition IsNotFound :: "error option \<Rightarrow> bool" where
  "IsNotFound err \<longleftrightarrow> err = Some NotFound"

text \<open>
  The functions of \<^verbatim>\<open>routeclient.RoutesGetter\<close> that the code calls, over the state \<open>'s\<close>
  of the remote store. Each call returns Go's pair of an object pointer (nil is \<open>None\<close>)
  and an error (nil is \<open>None\<close>), and the store's next state. The first argument is the
  namespace given to \<^verbatim>\<open>client.Routes\<close>.
\<close>

record 's RoutesGetter =
  client_Get :: "string \<Rightarrow> string \<Rightarrow> 's \<Rightarrow> (Route option \<times> error option) \<times> 's"
  client_Create :: "string \<Rightarrow> Route \<Rightarrow> 's \<Rightarrow> (Route option \<times> error option) \<times> 's"
  client_Update :: "string \<Rightarrow> Route \<Rightarrow> 's \<Rightarrow> (Route option \<times> error option) \<times> 's"

text \<open>The calls issued to the client, in order, with their arguments.\<close>

datatype call = GetCall string string | CreateCall string Route | UpdateCall string Route

text \<open>
  \<^verbatim>\<open>*routev1.Route\<close> values are pointers. The objects live in a heap, a list indexed by
  address; a new object takes the next address, so it never aliases an object that exists.
  The world is the store behind the client, the log of client calls, and the heap.
\<close>

type_synonym ptr = nat

record 's world =
  store :: 's
  calls :: "call list"
  heap :: "Route list"

definition new_object :: "Route \<Rightarrow> 's world \<Rightarrow> ptr \<times> 's world" where
  "new_object obj w = (length (heap w), w\<lparr>heap := heap w @ [obj]\<rparr>)"

definition assign :: "ptr \<Rightarrow> (Route \<Rightarrow> Route) \<Rightarrow> 's world \<Rightarrow> 's world" where
  "assign p f w = w\<lparr>heap := (heap w)[p := f (heap w ! p)]\<rparr>"

text \<open>\<^verbatim>\<open>DeepCopy\<close> of a non-nil route: a new object with the same contents.\<close>

definition DeepCopy :: "ptr \<Rightarrow> 's world \<Rightarrow> ptr \<times> 's world" where
  "DeepCopy p w = new_object (heap w ! p) w"

text \<open>
  A client call from the code: the call is logged with the object it is given, the store
  moves on, and a returned object is a new object of the heap.
\<close>

definition returned ::
  "(Route option \<times> error option) \<Rightarrow> 's world \<Rightarrow> (ptr option \<times> error option) \<times> 's world" where
  "returned r w =
     (case fst r of
        None \<Rightarrow> ((None, snd r), w)
      | Some obj \<Rightarrow> (let (p, w') = new_object obj w in ((Some p, snd r), w')))"

definition Routes_Get ::
  "'s RoutesGetter \<Rightarrow> string \<Rightarrow> string \<Rightarrow> 's world \<Rightarrow> (ptr option \<times> error option) \<times> 's world" where
  "Routes_Get client ns name w =
     (let (r, s) = client_Get client ns name (store w)
      in returned r (w\<lparr>store := s, calls := calls w @ [GetCall ns name]\<rparr>))"

definition Routes_Create ::
  "'s RoutesGetter \<Rightarrow> string \<Rightarrow> ptr \<Rightarrow> 's world \<Rightarrow> (ptr option \<times> error option) \<times> 's world" where
  "Routes_Create client ns p w =
     (let (r, s) = client_Create client ns (heap w ! p) (store w)
      in returned r (w\<lparr>store := s, calls := calls w @ [CreateCall ns (heap w ! p)]\<rparr>))"

definition Routes_Update ::
  "'s RoutesGetter \<Rightarrow> string \<Rightarrow> ptr \<Rightarrow> 's world \<Rightarrow> (ptr option \<times> error option) \<times> 's world" where
  "Routes_Update client ns p w =
     (let (r, s) = client_Update client ns (heap w ! p) (store w)
      in returned r (w\<lparr>store := s, calls := calls w @ [UpdateCall ns (heap w ! p)]\<rparr>))"

subsection \<open>The library functions\<close>

text \<open>
  \<^verbatim>\<open>resourcemerge.EnsureObjectMeta\<close>, \<^verbatim>\<open>resourcemerge.WithCleanLabelsAndAnnotations\<close> and
  \<^verbatim>\<open>equality.Semantic.DeepEqual\<close> come from libraries outside the file under study. The
  reconcile functions take them as a parameter:
  \<^item> \<open>lib_EnsureObjectMeta modified existing required\<close> gives the flag and the metadata
    that the call leaves in \<^verbatim>\<open>*modified\<close> and \<^verbatim>\<open>*existing\<close>;
  \<^item> \<open>lib_WithCleanLabelsAndAnnotations obj\<close> gives the contents the call leaves in the
    object it is given (it returns that same object);
  \<^item> \<open>lib_DeepEqual a b\<close> is the result of the comparison.
\<close>

record lib =
  lib_EnsureObjectMeta :: "bool \<Rightarrow> ObjectMeta \<Rightarrow> ObjectMeta \<Rightarrow> bool \<times> ObjectMeta"
  lib_WithCleanLabelsAndAnnotations :: "Route \<Rightarrow> Route"
  lib_DeepEqual :: "RouteSpec \<Rightarrow> RouteSpec \<Rightarrow> bool"

definition EnsureObjectMeta ::
  "lib \<Rightarrow> bool \<Rightarrow> ptr \<Rightarrow> ObjectMeta \<Rightarrow> 's world \<Rightarrow> bool \<times> 's world" where
  "EnsureObjectMeta l modified existing required w =
     (let (m, meta) = lib_EnsureObjectMeta l modified (route_ObjectMeta (heap w ! existing)) required
      in (m, assign existing (\<lambda>obj. obj\<lparr>route_ObjectMeta := meta\<rparr>) w))"

definition WithCleanLabelsAndAnnotations :: "lib \<Rightarrow> ptr \<Rightarrow> 's world \<Rightarrow> ptr \<times> 's world" where
  "WithCleanLabelsAndAnnotations l obj w =
     (obj, assign obj (lib_WithCleanLabelsAndAnnotations l) w)"

subsection \<open>ApplyRoute and GetOrCreate\<close>

text \<open>
  A call either returns Go's result tuple or panics (a nil pointer is dereferenced). The
  argument \<open>required\<close> is the address of the caller's object; an address outside the heap
  stands for nil. The recorder argument of \<^verbatim>\<open>ApplyRoute\<close> and the context argument of
  \<^verbatim>\<open>GetOrCreate\<close> are not used by the code beyond being passed on and are left out.
\<close>

datatype 'a outcome = Panic | Return 'a

definition ApplyRoute ::
  "lib \<Rightarrow> 's RoutesGetter \<Rightarrow> ptr \<Rightarrow> 's world \<Rightarrow>
     (ptr option \<times> bool \<times> error option) outcome \<times> 's world" where
  "ApplyRoute l client required w0 =
     (if \<not> required < length (heap w0) then (Panic, w0)
      else
        let ((existing, err), w1) =
              Routes_Get client (meta_Namespace (route_ObjectMeta (heap w0 ! required)))
                (meta_Name (route_ObjectMeta (heap w0 ! required))) w0
        in if IsNotFound err then
             let (requiredCopy, w2) = DeepCopy required w1;
                 ns = meta_Namespace (route_ObjectMeta (heap w2 ! requiredCopy));
                 (cleaned, w3) = WithCleanLabelsAndAnnotations l requiredCopy w2;
                 ((actual, err'), w4) = Routes_Create client ns cleaned w3
             in (Return (actual, True, err'), w4)
           else if err \<noteq> None then (Return (None, False, err), w1)
           else
             (case existing of
                None \<Rightarrow> (Panic, w1)
              | Some existing' \<Rightarrow>
                 let (existingCopy, w2) = DeepCopy existing' w1;
                     (modified, w3) =
                       EnsureObjectMeta l False existingCopy
                         (route_ObjectMeta (heap w2 ! required)) w2;
                     specSame =
                       lib_DeepEqual l (route_Spec (heap w3 ! existingCopy))
                         (route_Spec (heap w3 ! required))
                 in if specSame \<and> \<not> modified
                    then (Return (Some existingCopy, False, None), w3)
                    else
                      let w4 = assign existingCopy
                                 (\<lambda>obj. obj\<lparr>route_Spec := route_Spec (heap w3 ! required)\<rparr>) w3;
                          ((actual, err'), w5) =
                            Routes_Update client
                              (meta_Namespace (route_ObjectMeta (heap w4 ! required)))
                              existingCopy w4
                      in (Return (actual, True, err'), w5)))"

definition GetOrCreate ::
  "'s RoutesGetter \<Rightarrow> ptr \<Rightarrow> 's world \<Rightarrow>
     (ptr option \<times> bool \<times> error option) outcome \<times> 's world" where
  "GetOrCreate client required w0 =
     (if \<not> required < length (heap w0) then (Panic, w0)
      else
        let isNew = False;
            ((route, err), w1) =
              Routes_Get client (meta_Namespace (route_ObjectMeta (heap w0 ! required)))
                (meta_Name (route_ObjectMeta (heap w0 ! required))) w0;
            (((route, err), w2), isNew) =
              (if IsNotFound err
               then (Routes_Create client
                       (meta_Namespace (route_ObjectMeta (heap w1 ! required))) required w1,
                     True)
               else (((route, err), w1), isNew))
        in if err \<noteq> None then (Return (None, isNew, err), w2)
           else (Return (route, isNew, None), w2))"

text \<open>What a call returned, read in the world it left.\<close>

definition object_at :: "'s world \<Rightarrow> ptr option \<Rightarrow> Route option" where
  "object_at w p = map_option (\<lambda>a. heap w ! a) p"

section \<open>The library functions and the store\<close>

text \<open>
  The claims about merging, cleaning and repeated calls depend on what the functions of
  \<^verbatim>\<open>resourcemerge\<close> do with the labels and annotations. The functions belong to the
  vendored library \<^verbatim>\<open>library-go\<close>, outside the file under study; the definitions below
  follow what the library's functions do, shown in Go with each of them. A key that ends
  in a dash is a removal marker: it asks for the removal of the key that is left when the
  trailing dashes are cut.
\<close>

text \<open>
  \<^verbatim>\<open>strings.HasSuffix(s, suffix)\<close> and \<^verbatim>\<open>strings.TrimRight(s, cutset)\<close>: the string ends
  with the suffix; the string without its trailing characters that belong to the cutset.
\<close>

definition HasSuffix :: "string \<Rightarrow> string \<Rightarrow> bool" where
  "HasSuffix s suffix \<longleftrightarrow>
     length suffix \<le> length s \<and> drop (length s - length suffix) s = suffix"

definition TrimRight :: "string \<Rightarrow> string \<Rightarrow> string" where
  "TrimRight s cutset = rev (dropWhile (\<lambda>c. c \<in> set cutset) (rev s))"

text \<open>
  \<^verbatim>\<open>
  func SetStringIfSet(modified *bool, existing *string, required string) {
      if len(required) == 0 { return }
      if required != *existing { *existing = required; *modified = true }
  }
  \<close>
\<close>

definition SetStringIfSet :: "bool \<Rightarrow> string \<Rightarrow> string \<Rightarrow> bool \<times> string" where
  "SetStringIfSet modified existing required =
     (if length required = 0 then (modified, existing)
      else if required \<noteq> existing then (True, required)
      else (modified, existing))"

text \<open>
  \<^verbatim>\<open>
  func MergeMap(modified *bool, existing *map[string]string, required map[string]string) {
      if *existing == nil { *existing = map[string]string{} }
      for k, v := range required {
          actualKey := k
          removeKey := false
          // a key with "-" as suffix removes that key from the existing map
          if strings.HasSuffix(k, "-") {
              removeKey = true
              actualKey = strings.TrimRight(k, "-")
          }
          if existingV, ok := (*existing)[actualKey]; removeKey {
              if !ok { continue }
              delete(*existing, actualKey)
              *modified = true
          } else if !ok || v != existingV {
              *modified = true
              (*existing)[actualKey] = v
          }
      }
  }
  \<close>
  The loop runs over the entries of the required map in the order of the association
  list. Go leaves the order of the iteration open; a statement for every list is a
  statement for every order.
\<close>

fun MergeMap :: "bool \<Rightarrow> gomap \<Rightarrow> gomap \<Rightarrow> bool \<times> gomap" where
  "MergeMap modified existing [] = (modified, existing)"
| "MergeMap modified existing ((k, v) # required) =
     (if HasSuffix k ''-''
      then (case map_of existing (TrimRight k ''-'') of
              None \<Rightarrow> MergeMap modified existing required
            | Some existingV \<Rightarrow>
                MergeMap True (AList.delete (TrimRight k ''-'') existing) required)
      else (case map_of existing k of
              None \<Rightarrow> MergeMap True (AList.update k v existing) required
            | Some existingV \<Rightarrow>
                if v \<noteq> existingV then MergeMap True (AList.update k v existing) required
                else MergeMap modified existing required))"

text \<open>
  \<^verbatim>\<open>
  func EnsureObjectMeta(modified *bool, existing *metav1.ObjectMeta, required metav1.ObjectMeta) {
      SetStringIfSet(modified, &existing.Namespace, required.Namespace)
      SetStringIfSet(modified, &existing.Name, required.Name)
      MergeMap(modified, &existing.Labels, required.Labels)
      MergeMap(modified, &existing.Annotations, required.Annotations)
  }
  \<close>
\<close>

definition resourcemerge_EnsureObjectMeta ::
  "bool \<Rightarrow> ObjectMeta \<Rightarrow> ObjectMeta \<Rightarrow> bool \<times> ObjectMeta" where
  "resourcemerge_EnsureObjectMeta modified existing required =
     (let (m1, namespace) =
            SetStringIfSet modified (meta_Namespace existing) (meta_Namespace required);
          (m2, name) = SetStringIfSet m1 (meta_Name existing) (meta_Name required);
          (m3, labels) = MergeMap m2 (meta_Labels existing) (meta_Labels required);
          (m4, annotations) =
            MergeMap m3 (meta_Annotations existing) (meta_Annotations required)
      in (m4, existing\<lparr>meta_Name := name, meta_Namespace := namespace,
                        meta_Labels := labels, meta_Annotations := annotations\<rparr>))"

text \<open>
  \<^verbatim>\<open>
  func WithCleanLabelsAndAnnotations(obj metav1.Object) metav1.Object {
      obj.SetAnnotations(cleanRemovalKeys(obj.GetAnnotations()))
      obj.SetLabels(cleanRemovalKeys(obj.GetLabels()))
      return obj
  }
  func cleanRemovalKeys(required map[string]string) map[string]string {
      for k := range required {
          if strings.HasSuffix(k, "-") { delete(required, k) }
      }
      return required
  }
  \<close>
\<close>

definition cleanRemovalKeys :: "gomap \<Rightarrow> gomap" where
  "cleanRemovalKeys required = filter (\<lambda>(k, v). \<not> HasSuffix k ''-'') required"

definition resourcemerge_WithCleanLabelsAndAnnotations :: "Route \<Rightarrow> Route" where
  "resourcemerge_WithCleanLabelsAndAnnotations obj =
     obj\<lparr>route_ObjectMeta := (route_ObjectMeta obj)
       \<lparr>meta_Annotations := cleanRemovalKeys (meta_Annotations (route_ObjectMeta obj)),
        meta_Labels := cleanRemovalKeys (meta_Labels (route_ObjectMeta obj))\<rparr>\<rparr>"

text \<open>
  Modelled from the spec: \<^verbatim>\<open>equality.Semantic.DeepEqual\<close> on route specs, which is
  missing: "field-for-field (semantic deep equality, ignoring representational
  differences)". The values of the model carry no representational difference (a nil and
  an empty slice are the same list), so the comparison is equality.
\<close>

definition spec_DeepEqual :: "RouteSpec \<Rightarrow> RouteSpec \<Rightarrow> bool" where
  "spec_DeepEqual a b \<longleftrightarrow> a = b"

text \<open>The three library functions together.\<close>

definition resourcemerge :: lib where
  "resourcemerge =
     \<lparr>lib_EnsureObjectMeta = resourcemerge_EnsureObjectMeta,
      lib_WithCleanLabelsAndAnnotations = resourcemerge_WithCleanLabelsAndAnnotations,
      lib_DeepEqual = spec_DeepEqual\<rparr>"

text \<open>
  Modelled from the spec: the resource store behind the client, which is missing:
  "Get(namespace,name), Create(object), Update(object), keyed by (namespace,name),
  returning a distinguishable not-found error". The store is the list of its objects; an
  object's key is the namespace and name of its metadata. Create refuses a key that
  exists, Update reports not-found for a key that does not, and both return the object as
  written.
\<close>

definition keyed :: "string \<Rightarrow> string \<Rightarrow> Route \<Rightarrow> bool" where
  "keyed ns name obj \<longleftrightarrow>
     meta_Namespace (route_ObjectMeta obj) = ns \<and> meta_Name (route_ObjectMeta obj) = name"

text \<open>
  Modelled from the spec: the test that a stored object has the key of a given object, for
  the store, which is missing.
\<close>

definition same_key :: "Route \<Rightarrow> Route \<Rightarrow> bool" where
  "same_key obj =
     keyed (meta_Namespace (route_ObjectMeta obj)) (meta_Name (route_ObjectMeta obj))"

text \<open>
  Modelled from the spec: Get of the store, which is missing: the object under the key, or
  the not-found error.
\<close>

definition store_Get ::
  "string \<Rightarrow> string \<Rightarrow> Route list \<Rightarrow> (Route option \<times> error option) \<times> Route list" where
  "store_Get ns name s =
     (case find (keyed ns name) s of
        None \<Rightarrow> ((None, Some NotFound), s)
      | Some obj \<Rightarrow> ((Some obj, None), s))"

text \<open>
  Modelled from the spec: Create of the store, which is missing: the object is added under
  its own key and returned, unless the key exists.
\<close>

definition store_Create ::
  "string \<Rightarrow> Route \<Rightarrow> Route list \<Rightarrow> (Route option \<times> error option) \<times> Route list" where
  "store_Create ns obj s =
     (case find (same_key obj) s of
        None \<Rightarrow> ((Some obj, None), s @ [obj])
      | Some _ \<Rightarrow> ((None, Some (StoreError ''already exists'')), s))"

text \<open>
  Modelled from the spec: Update of the store, which is missing: the object replaces what
  is stored under its own key and is returned, or the key is not found.
\<close>

definition store_Update ::
  "string \<Rightarrow> Route \<Rightarrow> Route list \<Rightarrow> (Route option \<times> error option) \<times> Route list" where
  "store_Update ns obj s =
     (case find (same_key obj) s of
        None \<Rightarrow> ((None, Some NotFound), s)
      | Some _ \<Rightarrow> ((Some obj, None), map (\<lambda>r. if same_key obj r then obj else r) s))"

text \<open>
  Modelled from the spec: the client of that store, which is missing.
\<close>

definition store_client :: "Route list RoutesGetter" where
  "store_client =
     \<lparr>client_Get = store_Get, client_Create = store_Create, client_Update = store_Update\<rparr>"

text \<open>
  Modelled from the spec: a store that assigns fields of its own, which is missing ("minus
  store-assigned fields"): it gives a route without a host the host of its name under the
  cluster's domain, on Create and on Update.
\<close>

definition assign_host :: "Route \<Rightarrow> Route" where
  "assign_host obj =
     (if spec_Host (route_Spec obj) = ''''
      then obj\<lparr>route_Spec := (route_Spec obj)
             \<lparr>spec_Host := meta_Name (route_ObjectMeta obj) @ ''.apps.example.com''\<rparr>\<rparr>
      else obj)"

definition host_assigning_client :: "Route list RoutesGetter" where
  "host_assigning_client =
     \<lparr>client_Get = store_Get,
      client_Create = (\<lambda>ns obj. store_Create ns (assign_host obj)),
      client_Update = (\<lambda>ns obj. store_Update ns (assign_host obj))\<rparr>"

section \<open>Notions for the statements about repeated calls\<close>



section \<open>Example objects\<close>

text \<open>
  Concrete values on which the theorems below are instantiated: the names of the console
  deployment, a configuration object with a given custom hostname, the default route built
  from it, variations of that route, a world with a given store and heap, and a client
  whose calls fail with given errors.
\<close>

definition ingress_of :: "string \<Rightarrow> string \<Rightarrow> string \<Rightarrow> RouteIngress" where
  "ingress_of router host admitted =
     \<lparr>ingress_Host = host, ingress_RouterName = router,
      ingress_Conditions =
        [\<lparr>cond_Type = ''Admitted'', cond_Status = admitted, cond_Reason = '''',
          cond_Message = ''''\<rparr>]\<rparr>"

definition zero_ObjectMeta :: ObjectMeta where
  "zero_ObjectMeta =
     \<lparr>meta_Name = '''', meta_Namespace = '''', meta_Labels = [], meta_Annotations = [],
      meta_OwnerReferences = []\<rparr>"

definition route_with_ingress :: "RouteIngress list \<Rightarrow> Route" where
  "route_with_ingress ingresses =
     \<lparr>route_ObjectMeta = zero_ObjectMeta, route_Spec = zero_RouteSpec,
      route_Status = \<lparr>status_Ingress = ingresses\<rparr>\<rparr>"

definition example_api :: api where
  "example_api =
     \<lparr>OpenShiftConsoleServiceName = ''console'',
      OpenshiftConsoleRedirectServiceName = ''console-redirect'',
      ConsoleContainerPortName = ''https'',
      RedirectContainerPortName = ''custom-route-redirect'',
      OpenshiftConsoleCustomRouteName = ''console-custom'',
      SharedMeta = \<lparr>meta_Name = ''console'', meta_Namespace = ''openshift-console'',
                     meta_Labels = [(''app'', ''console'')], meta_Annotations = [],
                     meta_OwnerReferences = []\<rparr>,
      OwnerRefFrom = (\<lambda>cr. \<lparr>owner_APIVersion = ''operator.openshift.io/v1'',
                              owner_Kind = ''Console'',
                              owner_Name = meta_Name (console_ObjectMeta cr),
                              owner_UID = '''', owner_Controller = Some True\<rparr>)\<rparr>"

definition console_with_hostname :: "string \<Rightarrow> Console" where
  "console_with_hostname host =
     \<lparr>console_ObjectMeta = zero_ObjectMeta\<lparr>meta_Name := ''cluster''\<rparr>,
      console_Spec = \<lparr>console_Route =
        \<lparr>cfg_Hostname = host, cfg_Secret = \<lparr>secret_Name = ''''\<rparr>\<rparr>\<rparr>\<rparr>"

definition desired_route :: Route where
  "desired_route = DefaultRoute example_api (console_with_hostname '''')"

definition with_label :: "string \<Rightarrow> string \<Rightarrow> Route \<Rightarrow> Route" where
  "with_label k v obj =
     obj\<lparr>route_ObjectMeta := (route_ObjectMeta obj)
       \<lparr>meta_Labels := meta_Labels (route_ObjectMeta obj) @ [(k, v)]\<rparr>\<rparr>"

definition with_host :: "string \<Rightarrow> Route \<Rightarrow> Route" where
  "with_host h obj = obj\<lparr>route_Spec := (route_Spec obj)\<lparr>spec_Host := h\<rparr>\<rparr>"

definition world_of :: "'s \<Rightarrow> Route list \<Rightarrow> 's world" where
  "world_of s objs = \<lparr>store = s, calls = [], heap = objs\<rparr>"

definition with_annotation :: "string \<Rightarrow> string \<Rightarrow> Route \<Rightarrow> Route" where
  "with_annotation k v obj =
     obj\<lparr>route_ObjectMeta := (route_ObjectMeta obj)
       \<lparr>meta_Annotations := meta_Annotations (route_ObjectMeta obj) @ [(k, v)]\<rparr>\<rparr>"

definition faulty_client :: "error option \<Rightarrow> error option \<Rightarrow> Route list RoutesGetter" where
  "faulty_client get_error write_error =
     \<lparr>client_Get = (\<lambda>ns name s.
        case get_error of None \<Rightarrow> store_Get ns name s | Some e \<Rightarrow> ((None, Some e), s)),
      client_Create = (\<lambda>ns obj s.
        case write_error of None \<Rightarrow> store_Create ns obj s | Some e \<Rightarrow> ((None, Some e), s)),
      client_Update = (\<lambda>ns obj s.
        case write_error of None \<Rightarrow> store_Update ns obj s | Some e \<Rightarrow> ((None, Some e), s))\<rparr>"

text \<open>A desired route that carries a key and the same key with a dash appended.\<close>

definition marked_route :: Route where
  "marked_route = with_label ''legacy-'' '''' (with_label ''legacy'' ''x'' desired_route)"

section \<open>Unfolding rules\<close>

lemmas world_ops =
  Routes_Get_def Routes_Create_def Routes_Update_def returned_def new_object_def assign_def
  DeepCopy_def EnsureObjectMeta_def WithCleanLabelsAndAnnotations_def object_at_def

lemmas builder_defs =
  DefaultRoute_def CustomRoute_def DefaultStub_def AddOwnerRef_def IsCustomRouteSet_def
  toService_def port_def tls_def wildcard_def TLSTerminationEdge_def
  TLSTerminationReencrypt_def InsecureEdgeTerminationPolicyRedirect_def WildcardPolicyNone_def
  zero_RouteSpec_def

lemmas fixture_defs =
  example_api_def console_with_hostname_def desired_route_def with_label_def with_host_def
  with_annotation_def world_of_def zero_ObjectMeta_def marked_route_def
  faulty_client_def host_assigning_client_def assign_host_def route_with_ingress_def ingress_of_def builder_defs

lemmas collaborator_defs =
  resourcemerge_def resourcemerge_EnsureObjectMeta_def
  resourcemerge_WithCleanLabelsAndAnnotations_def SetStringIfSet_def cleanRemovalKeys_def
  HasSuffix_def TrimRight_def spec_DeepEqual_def store_client_def store_Get_def
  store_Create_def store_Update_def keyed_def same_key_def

section \<open>Properties of the status reader\<close>

lemma isIngressAdmitted_loop_ex:
  "isIngressAdmitted_loop admitted cs \<longleftrightarrow> admitted \<or> list_ex admitted_condition cs"
  by (induction cs arbitrary: admitted)
     (auto simp: admitted_condition_def RouteAdmitted_def ConditionTrue_def)

lemma isIngressAdmitted_iff:
  "isIngressAdmitted i \<longleftrightarrow> list_ex admitted_condition (ingress_Conditions i)"
  by (simp add: isIngressAdmitted_def isIngressAdmitted_loop_ex)

lemma GetCanonicalHost_loop_first:
  "GetCanonicalHost_loop is = first_qualifying_host is"
  by (induction "is")
     (simp_all add: first_qualifying_host_def qualifies_def isIngressAdmitted_iff
        defaultIngressController_def)

lemma IsAdmitted_loop_ex:
  "IsAdmitted_loop is \<longleftrightarrow> list_ex (\<lambda>i. list_ex admitted_condition (ingress_Conditions i)) is"
  by (induction "is") (simp_all add: isIngressAdmitted_iff)

text \<open>
  Claim C7. For every route, \<^verbatim>\<open>GetCanonicalHost\<close> scans the ingress entries in list order,
  skips every entry whose router name is not the default controller's and every entry
  without a true \<open>Admitted\<close> condition, and returns the host of the first entry that
  remains; it returns the empty string when none remains, in particular when every entry
  belongs to another controller, whatever those entries report.
\<close>

theorem GetCanonicalHost_first_qualifying:
  "GetCanonicalHost route = first_qualifying_host (status_Ingress (route_Status route)) \<and>
   ((\<forall>i \<in> set (status_Ingress (route_Status route)). ingress_RouterName i \<noteq> ''default'')
      \<longrightarrow> GetCanonicalHost route = '''')"
proof -
  have first: "GetCanonicalHost route = first_qualifying_host (status_Ingress (route_Status route))"
    by (simp add: GetCanonicalHost_def GetCanonicalHost_loop_first)
  have "filter qualifies is = []" if "\<forall>i \<in> set is. ingress_RouterName i \<noteq> ''default''" for "is"
    using that by (induction "is") (simp_all add: qualifies_def)
  then show ?thesis
    using first by (simp add: first_qualifying_host_def)
qed

theorem GetCanonicalHost_first_qualifying_witness:
  "GetCanonicalHost (route_with_ingress [ingress_of ''other'' ''b.example.com'' ''True'']) = '''' \<and>
   GetCanonicalHost (route_with_ingress
      [ingress_of ''other'' ''b.example.com'' ''True'',
       ingress_of ''default'' ''c.example.com'' ''False'',
       ingress_of ''default'' ''a.example.com'' ''True'',
       ingress_of ''default'' ''d.example.com'' ''True'']) = ''a.example.com''"
  using GetCanonicalHost_first_qualifying
          [of "route_with_ingress [ingress_of ''other'' ''b.example.com'' ''True'']"]
        GetCanonicalHost_first_qualifying
          [of "route_with_ingress
                 [ingress_of ''other'' ''b.example.com'' ''True'',
                  ingress_of ''default'' ''c.example.com'' ''False'',
                  ingress_of ''default'' ''a.example.com'' ''True'',
                  ingress_of ''default'' ''d.example.com'' ''True'']"]
  by (simp add: route_with_ingress_def ingress_of_def first_qualifying_host_def qualifies_def
        admitted_condition_def)

text \<open>
  Claim C8. For every route, \<^verbatim>\<open>IsAdmitted\<close> is true exactly when some ingress entry, of
  any router name, has a condition whose type is exactly \<open>Admitted\<close> and whose status is
  exactly \<open>True\<close>. An entry without such a condition, or with the type and another status,
  does not count.
\<close>

theorem IsAdmitted_iff:
  "IsAdmitted route \<longleftrightarrow>
     (\<exists>i \<in> set (status_Ingress (route_Status route)).
        \<exists>c \<in> set (ingress_Conditions i). cond_Type c = ''Admitted'' \<and> cond_Status c = ''True'')"
  by (simp add: IsAdmitted_def IsAdmitted_loop_ex list_ex_iff admitted_condition_def)

theorem IsAdmitted_iff_witness:
  "IsAdmitted (route_with_ingress [ingress_of ''other'' ''b.example.com'' ''True'']) \<and>
   \<not> IsAdmitted (route_with_ingress [ingress_of ''default'' ''a.example.com'' ''true'']) \<and>
   \<not> IsAdmitted (route_with_ingress
        [\<lparr>ingress_Host = ''a.example.com'', ingress_RouterName = ''default'',
          ingress_Conditions = []\<rparr>])"
  using IsAdmitted_iff [of "route_with_ingress [ingress_of ''other'' ''b.example.com'' ''True'']"]
        IsAdmitted_iff [of "route_with_ingress [ingress_of ''default'' ''a.example.com'' ''true'']"]
        IsAdmitted_iff [of "route_with_ingress
          [\<lparr>ingress_Host = ''a.example.com'', ingress_RouterName = ''default'',
            ingress_Conditions = []\<rparr>]"]
  by (simp add: route_with_ingress_def ingress_of_def)

section \<open>Properties of the spec builder\<close>

text \<open>
  Claim C5. \<^verbatim>\<open>DefaultRoute\<close> is a function of the configuration object alone (with the
  names of the deployment); its result has no other input and no effect. When the
  configuration has a non-empty custom hostname, the spec targets the redirect service,
  on the redirect port, with edge termination; otherwise it targets the primary service,
  on the primary port, with re-encrypt termination. The other fields are the same in both
  cases: weight 100, insecure traffic redirected, no wildcard, no certificate.
\<close>

theorem DefaultRoute_target:
  "route_Spec (DefaultRoute a cr) =
     (if cfg_Hostname (console_Route (console_Spec cr)) \<noteq> ''''
      then zero_RouteSpec
        \<lparr>spec_To := \<lparr>to_Kind = ''Service'', to_Name = OpenshiftConsoleRedirectServiceName a,
                     to_Weight = Some 100\<rparr>,
         spec_Port := Some \<lparr>port_TargetPort = StrVal (RedirectContainerPortName a)\<rparr>,
         spec_TLS := Some \<lparr>tls_Termination = ''edge'', tls_Certificate = '''', tls_Key = '''',
                            tls_CACertificate = '''', tls_DestinationCACertificate = '''',
                            tls_InsecureEdgeTerminationPolicy = ''Redirect''\<rparr>,
         spec_WildcardPolicy := ''None''\<rparr>
      else zero_RouteSpec
        \<lparr>spec_To := \<lparr>to_Kind = ''Service'', to_Name = OpenShiftConsoleServiceName a,
                     to_Weight = Some 100\<rparr>,
         spec_Port := Some \<lparr>port_TargetPort = StrVal (ConsoleContainerPortName a)\<rparr>,
         spec_TLS := Some \<lparr>tls_Termination = ''reencrypt'', tls_Certificate = '''',
                            tls_Key = '''', tls_CACertificate = '''',
                            tls_DestinationCACertificate = '''',
                            tls_InsecureEdgeTerminationPolicy = ''Redirect''\<rparr>,
         spec_WildcardPolicy := ''None''\<rparr>)"
  by (simp add: DefaultRoute_def DefaultStub_def AddOwnerRef_def IsCustomRouteSet_def
        toService_def port_def tls_def wildcard_def TLSTerminationEdge_def
        TLSTerminationReencrypt_def InsecureEdgeTerminationPolicyRedirect_def
        WildcardPolicyNone_def Let_def)

theorem DefaultRoute_target_witness:
  "route_Spec (DefaultRoute example_api (console_with_hostname ''console.example.com'')) =
     zero_RouteSpec
       \<lparr>spec_To := \<lparr>to_Kind = ''Service'', to_Name = ''console-redirect'', to_Weight = Some 100\<rparr>,
        spec_Port := Some \<lparr>port_TargetPort = StrVal ''custom-route-redirect''\<rparr>,
        spec_TLS := Some \<lparr>tls_Termination = ''edge'', tls_Certificate = '''', tls_Key = '''',
                           tls_CACertificate = '''', tls_DestinationCACertificate = '''',
                           tls_InsecureEdgeTerminationPolicy = ''Redirect''\<rparr>,
        spec_WildcardPolicy := ''None''\<rparr> \<and>
   route_Spec (DefaultRoute example_api (console_with_hostname '''')) =
     zero_RouteSpec
       \<lparr>spec_To := \<lparr>to_Kind = ''Service'', to_Name = ''console'', to_Weight = Some 100\<rparr>,
        spec_Port := Some \<lparr>port_TargetPort = StrVal ''https''\<rparr>,
        spec_TLS := Some \<lparr>tls_Termination = ''reencrypt'', tls_Certificate = '''',
                           tls_Key = '''', tls_CACertificate = '''',
                           tls_DestinationCACertificate = '''',
                           tls_InsecureEdgeTerminationPolicy = ''Redirect''\<rparr>,
        spec_WildcardPolicy := ''None''\<rparr>"
  using DefaultRoute_target [of example_api "console_with_hostname ''console.example.com''"]
        DefaultRoute_target [of example_api "console_with_hostname ''''"]
  by (simp add: example_api_def console_with_hostname_def)

text \<open>
  Claim C6. For every configuration object and every optional certificate and key pair,
  \<^verbatim>\<open>CustomRoute\<close> targets the primary service on the primary port with re-encrypt
  termination, whatever the hostname is; the host of the route is the configured hostname
  as it stands; and the certificate and key of the TLS settings are the caller's when a
  pair is given and empty when none is.
\<close>

theorem CustomRoute_target:
  "route_Spec (CustomRoute a cr tlsConfig) =
     zero_RouteSpec
       \<lparr>spec_Host := cfg_Hostname (console_Route (console_Spec cr)),
        spec_To := \<lparr>to_Kind = ''Service'', to_Name = OpenShiftConsoleServiceName a,
                    to_Weight = Some 100\<rparr>,
        spec_Port := Some \<lparr>port_TargetPort = StrVal (ConsoleContainerPortName a)\<rparr>,
        spec_TLS := Some
          \<lparr>tls_Termination = ''reencrypt'',
           tls_Certificate = (case tlsConfig of None \<Rightarrow> '''' | Some c \<Rightarrow> cert_Certificate c),
           tls_Key = (case tlsConfig of None \<Rightarrow> '''' | Some c \<Rightarrow> cert_Key c),
           tls_CACertificate = '''', tls_DestinationCACertificate = '''',
           tls_InsecureEdgeTerminationPolicy = ''Redirect''\<rparr>,
        spec_WildcardPolicy := ''None''\<rparr>"
  by (cases tlsConfig)
     (simp_all add: CustomRoute_def DefaultStub_def AddOwnerRef_def
        toService_def port_def tls_def wildcard_def
        TLSTerminationReencrypt_def InsecureEdgeTerminationPolicyRedirect_def
        WildcardPolicyNone_def Let_def)

theorem CustomRoute_target_witness:
  "spec_Host (route_Spec (CustomRoute example_api (console_with_hostname ''console.example.com'')
      (Some \<lparr>cert_Certificate = ''CERT'', cert_Key = ''KEY''\<rparr>))) = ''console.example.com'' \<and>
   spec_TLS (route_Spec (CustomRoute example_api (console_with_hostname ''console.example.com'')
      (Some \<lparr>cert_Certificate = ''CERT'', cert_Key = ''KEY''\<rparr>))) =
     Some \<lparr>tls_Termination = ''reencrypt'', tls_Certificate = ''CERT'', tls_Key = ''KEY'',
           tls_CACertificate = '''', tls_DestinationCACertificate = '''',
           tls_InsecureEdgeTerminationPolicy = ''Redirect''\<rparr> \<and>
   to_Name (spec_To (route_Spec (CustomRoute example_api
      (console_with_hostname ''console.example.com'')
      (Some \<lparr>cert_Certificate = ''CERT'', cert_Key = ''KEY''\<rparr>)))) = ''console'' \<and>
   spec_Host (route_Spec (CustomRoute example_api (console_with_hostname '''') None)) = '''' \<and>
   spec_TLS (route_Spec (CustomRoute example_api (console_with_hostname '''') None)) =
     Some \<lparr>tls_Termination = ''reencrypt'', tls_Certificate = '''', tls_Key = '''',
           tls_CACertificate = '''', tls_DestinationCACertificate = '''',
           tls_InsecureEdgeTerminationPolicy = ''Redirect''\<rparr>"
  using CustomRoute_target [of example_api "console_with_hostname ''console.example.com''"
          "Some \<lparr>cert_Certificate = ''CERT'', cert_Key = ''KEY''\<rparr>"]
        CustomRoute_target [of example_api "console_with_hostname ''''" None]
  by (simp add: example_api_def console_with_hostname_def zero_RouteSpec_def)

section \<open>Properties of the reconcile operation\<close>

text \<open>
  The three ways through \<^verbatim>\<open>ApplyRoute\<close>, for any client and any library functions: what
  is returned, which calls are issued with which objects, the store that is left, and the
  caller's object, which stays as it was.
\<close>

lemma ApplyRoute_found:
  assumes "required < length (heap w)"
    and "heap w ! required = req"
    and "meta_Namespace (route_ObjectMeta req) = ns"
    and "meta_Name (route_ObjectMeta req) = name"
    and "client_Get client ns name (store w) = ((Some live, None), s1)"
    and "lib_EnsureObjectMeta l False (route_ObjectMeta live) (route_ObjectMeta req)
           = (modified, meta)"
    and "client_Update client ns
           (live\<lparr>route_ObjectMeta := meta, route_Spec := route_Spec req\<rparr>) s1
           = ((actual, err), s2)"
  shows "\<exists>res w'. ApplyRoute l client required w =
            (Return (if lib_DeepEqual l (route_Spec live) (route_Spec req) \<and> \<not> modified
                     then (res, False, None) else (res, True, err)), w') \<and>
          object_at w' res =
            (if lib_DeepEqual l (route_Spec live) (route_Spec req) \<and> \<not> modified
             then Some (live\<lparr>route_ObjectMeta := meta\<rparr>) else actual) \<and>
          store w' =
            (if lib_DeepEqual l (route_Spec live) (route_Spec req) \<and> \<not> modified
             then s1 else s2) \<and>
          calls w' = calls w @
            (if lib_DeepEqual l (route_Spec live) (route_Spec req) \<and> \<not> modified
             then [GetCall ns name]
             else [GetCall ns name,
                   UpdateCall ns
                     (live\<lparr>route_ObjectMeta := meta, route_Spec := route_Spec req\<rparr>)]) \<and>
          required < length (heap w') \<and> heap w' ! required = req"
  using assms
  by (cases actual)
     (auto simp: ApplyRoute_def world_ops IsNotFound_def Let_def nth_append split: prod.splits)

lemma ApplyRoute_not_found:
  assumes "required < length (heap w)"
    and "heap w ! required = req"
    and "meta_Namespace (route_ObjectMeta req) = ns"
    and "meta_Name (route_ObjectMeta req) = name"
    and "client_Get client ns name (store w) = ((obj, Some NotFound), s1)"
    and "client_Create client ns (lib_WithCleanLabelsAndAnnotations l req) s1
           = ((actual, err), s2)"
  shows "\<exists>res w'. ApplyRoute l client required w = (Return (res, True, err), w') \<and>
          object_at w' res = actual \<and> store w' = s2 \<and>
          calls w' = calls w @
            [GetCall ns name, CreateCall ns (lib_WithCleanLabelsAndAnnotations l req)] \<and>
          required < length (heap w') \<and> heap w' ! required = req"
  using assms
  by (cases actual; cases obj)
     (auto simp: ApplyRoute_def world_ops IsNotFound_def Let_def nth_append split: prod.splits)

lemma ApplyRoute_other_error:
  assumes "required < length (heap w)"
    and "heap w ! required = req"
    and "meta_Namespace (route_ObjectMeta req) = ns"
    and "meta_Name (route_ObjectMeta req) = name"
    and "client_Get client ns name (store w) = ((obj, Some e), s1)"
    and "e \<noteq> NotFound"
  shows "\<exists>w'. ApplyRoute l client required w = (Return (None, False, Some e), w') \<and>
          store w' = s1 \<and> calls w' = calls w @ [GetCall ns name] \<and>
          required < length (heap w') \<and> heap w' ! required = req"
  using assms
  by (cases obj)
     (auto simp: ApplyRoute_def world_ops IsNotFound_def Let_def nth_append split: prod.splits)

text \<open>
  Claim C1. For every desired route and every live route that the fetch returns without
  error: when the metadata merge reports no change and the live spec is deep-equal to the
  desired spec, \<^verbatim>\<open>ApplyRoute\<close> returns the live copy with \<open>changed = False\<close> and the fetch
  is the only call; in every other case it issues, after the fetch, one Update with the
  live copy whose whole spec is replaced by the desired spec, and returns what Update
  returns with \<open>changed = True\<close>.
\<close>

theorem ApplyRoute_existing:
  assumes "required < length (heap w)"
    and "heap w ! required = req"
    and "meta_Namespace (route_ObjectMeta req) = ns"
    and "meta_Name (route_ObjectMeta req) = name"
    and "client_Get client ns name (store w) = ((Some live, None), s1)"
    and "lib_EnsureObjectMeta l False (route_ObjectMeta live) (route_ObjectMeta req)
           = (modified, meta)"
    and "client_Update client ns
           (live\<lparr>route_ObjectMeta := meta, route_Spec := route_Spec req\<rparr>) s1
           = ((actual, err), s2)"
  shows "if lib_DeepEqual l (route_Spec live) (route_Spec req) \<and> \<not> modified
         then \<exists>p w'. ApplyRoute l client required w = (Return (Some p, False, None), w') \<and>
                heap w' ! p = live\<lparr>route_ObjectMeta := meta\<rparr> \<and>
                store w' = s1 \<and> calls w' = calls w @ [GetCall ns name]
         else \<exists>res w'. ApplyRoute l client required w = (Return (res, True, err), w') \<and>
                object_at w' res = actual \<and> store w' = s2 \<and>
                calls w' = calls w @
                  [GetCall ns name,
                   UpdateCall ns (live\<lparr>route_ObjectMeta := meta, route_Spec := route_Spec req\<rparr>)]"
  using ApplyRoute_found [OF assms] by (auto simp: object_at_def)

theorem ApplyRoute_existing_witness:
  "(\<exists>p w'. ApplyRoute resourcemerge store_client 0
              (world_of [with_label ''stray'' ''1'' desired_route] [desired_route])
            = (Return (Some p, False, None), w') \<and>
            heap w' ! p = with_label ''stray'' ''1'' desired_route \<and>
            store w' = [with_label ''stray'' ''1'' desired_route] \<and>
            calls w' = [GetCall ''openshift-console'' ''console'']) \<and>
   (\<exists>res w'. ApplyRoute resourcemerge store_client 0
              (world_of [with_host ''old.example.com'' (with_label ''stray'' ''1'' desired_route)]
                 [desired_route])
            = (Return (res, True, None), w') \<and>
            object_at w' res = Some (with_label ''stray'' ''1'' desired_route) \<and>
            store w' = [with_label ''stray'' ''1'' desired_route] \<and>
            calls w' = [GetCall ''openshift-console'' ''console'',
                        UpdateCall ''openshift-console''
                          (with_label ''stray'' ''1'' desired_route)])"
  using ApplyRoute_existing
          [of 0 "world_of [with_label ''stray'' ''1'' desired_route] [desired_route]"
              desired_route "''openshift-console''" "''console''" store_client
              "with_label ''stray'' ''1'' desired_route"
              "[with_label ''stray'' ''1'' desired_route]"
              resourcemerge False
              "route_ObjectMeta (with_label ''stray'' ''1'' desired_route)"
              "Some (with_label ''stray'' ''1'' desired_route)" None
              "[with_label ''stray'' ''1'' desired_route]"]
        ApplyRoute_existing
          [of 0 "world_of [with_host ''old.example.com'' (with_label ''stray'' ''1'' desired_route)]
                   [desired_route]"
              desired_route "''openshift-console''" "''console''" store_client
              "with_host ''old.example.com'' (with_label ''stray'' ''1'' desired_route)"
              "[with_host ''old.example.com'' (with_label ''stray'' ''1'' desired_route)]"
              resourcemerge False
              "route_ObjectMeta (with_label ''stray'' ''1'' desired_route)"
              "Some (with_label ''stray'' ''1'' desired_route)" None
              "[with_label ''stray'' ''1'' desired_route]"]
  by (simp add: fixture_defs collaborator_defs)

text \<open>
  Claim C2. For every desired route: when the fetch reports not-found, \<^verbatim>\<open>ApplyRoute\<close>
  issues one Create with the cleaned copy of the desired object and returns what Create
  returns with \<open>changed = True\<close>; when the fetch reports another error, it returns that
  error with a nil object and \<open>changed = False\<close>, and the fetch is the only call. In both
  cases the caller's object is as it was: the cleaning works on a copy.
\<close>

theorem ApplyRoute_fetch_failed:
  assumes "required < length (heap w)"
    and "heap w ! required = req"
    and "meta_Namespace (route_ObjectMeta req) = ns"
    and "meta_Name (route_ObjectMeta req) = name"
    and "client_Get client ns name (store w) = ((obj, Some e), s1)"
    and "client_Create client ns (lib_WithCleanLabelsAndAnnotations l req) s1
           = ((actual, err), s2)"
  shows "if e = NotFound
         then \<exists>res w'. ApplyRoute l client required w = (Return (res, True, err), w') \<and>
                object_at w' res = actual \<and> store w' = s2 \<and>
                calls w' = calls w @
                  [GetCall ns name, CreateCall ns (lib_WithCleanLabelsAndAnnotations l req)] \<and>
                heap w' ! required = req
         else \<exists>w'. ApplyRoute l client required w = (Return (None, False, Some e), w') \<and>
                store w' = s1 \<and> calls w' = calls w @ [GetCall ns name] \<and>
                heap w' ! required = req"
proof (cases "e = NotFound")
  case True
  then show ?thesis
    using ApplyRoute_not_found [OF assms(1-4) _ assms(6), of obj] assms(5) by auto
next
  case False
  then show ?thesis
    using ApplyRoute_other_error [OF assms(1-5), of l] by auto
qed

theorem ApplyRoute_fetch_failed_witness:
  "(\<exists>res w'. ApplyRoute resourcemerge store_client 0
               (world_of [] [marked_route])
             = (Return (res, True, None), w') \<and>
             object_at w' res = Some (with_label ''legacy'' ''x'' desired_route) \<and>
             store w' = [with_label ''legacy'' ''x'' desired_route] \<and>
             calls w' = [GetCall ''openshift-console'' ''console'',
                         CreateCall ''openshift-console''
                           (with_label ''legacy'' ''x'' desired_route)] \<and>
             heap w' ! 0 = marked_route) \<and>
   (\<exists>w'. ApplyRoute resourcemerge
             (faulty_client (Some (StoreError ''forbidden'')) None) 0
             (world_of [] [marked_route])
           = (Return (None, False, Some (StoreError ''forbidden'')), w') \<and>
           store w' = [] \<and> calls w' = [GetCall ''openshift-console'' ''console''] \<and>
           heap w' ! 0 = marked_route)"
  using ApplyRoute_fetch_failed
          [of 0 "world_of [] [marked_route]" marked_route "''openshift-console''" "''console''"
              store_client None NotFound "[]" resourcemerge
              "Some (with_label ''legacy'' ''x'' desired_route)" None
              "[with_label ''legacy'' ''x'' desired_route]"]
        ApplyRoute_fetch_failed
          [of 0 "world_of [] [marked_route]" marked_route "''openshift-console''" "''console''"
              "faulty_client (Some (StoreError ''forbidden'')) None" None
              "StoreError ''forbidden''" "[]" resourcemerge
              "Some (with_label ''legacy'' ''x'' desired_route)" None
              "[with_label ''legacy'' ''x'' desired_route]"]
  by (simp add: fixture_defs collaborator_defs)

text \<open>The ways through \<^verbatim>\<open>GetOrCreate\<close>, for any client.\<close>

lemma GetOrCreate_cases:
  assumes "required < length (heap w)"
    and "heap w ! required = req"
    and "meta_Namespace (route_ObjectMeta req) = ns"
    and "meta_Name (route_ObjectMeta req) = name"
    and "client_Get client ns name (store w) = ((obj, gerr), s1)"
    and "client_Create client ns req s1 = ((created, cerr), s2)"
  shows "\<exists>res w'. GetOrCreate client required w =
            (Return (res, gerr = Some NotFound,
                     if gerr = Some NotFound then cerr else gerr), w') \<and>
          object_at w' res =
            (if gerr = Some NotFound then (if cerr = None then created else None)
             else if gerr = None then obj else None) \<and>
          store w' = (if gerr = Some NotFound then s2 else s1) \<and>
          calls w' = calls w @
            (if gerr = Some NotFound then [GetCall ns name, CreateCall ns req]
             else [GetCall ns name]) \<and>
          heap w' ! required = req"
  using assms
  by (cases obj; cases created)
     (auto simp: GetOrCreate_def world_ops IsNotFound_def Let_def nth_append split: prod.splits)

text \<open>
  Claim C9. For every required route, \<^verbatim>\<open>GetOrCreate\<close> fetches by the namespace and name
  of the route. When the fetch succeeds it returns the fetched object and issues no other
  call. When the fetch reports not-found it issues one Create with the object it was
  given, as it stands. When the fetch reports another error it returns that error. No path
  issues an Update.
\<close>

theorem GetOrCreate_get_or_create:
  assumes "required < length (heap w)"
    and "heap w ! required = req"
    and "meta_Namespace (route_ObjectMeta req) = ns"
    and "meta_Name (route_ObjectMeta req) = name"
    and "client_Get client ns name (store w) = ((obj, gerr), s1)"
    and "client_Create client ns req s1 = ((created, cerr), s2)"
  shows "case gerr of
           None \<Rightarrow>
             \<exists>res w'. GetOrCreate client required w = (Return (res, False, None), w') \<and>
               object_at w' res = obj \<and> store w' = s1 \<and> calls w' = calls w @ [GetCall ns name]
         | Some e \<Rightarrow>
             if e = NotFound
             then \<exists>res w'. GetOrCreate client required w = (Return (res, True, cerr), w') \<and>
                    object_at w' res = (if cerr = None then created else None) \<and>
                    store w' = s2 \<and>
                    calls w' = calls w @ [GetCall ns name, CreateCall ns req]
             else \<exists>w'. GetOrCreate client required w = (Return (None, False, Some e), w') \<and>
                    store w' = s1 \<and> calls w' = calls w @ [GetCall ns name]"
  using GetOrCreate_cases [OF assms]
  by (cases gerr) (auto simp: object_at_def)

theorem GetOrCreate_get_or_create_witness:
  "(\<exists>res w'. GetOrCreate store_client 0
               (world_of [with_host ''old.example.com'' marked_route] [marked_route])
             = (Return (res, False, None), w') \<and>
             object_at w' res = Some (with_host ''old.example.com'' marked_route) \<and>
             store w' = [with_host ''old.example.com'' marked_route] \<and>
             calls w' = [GetCall ''openshift-console'' ''console'']) \<and>
   (\<exists>res w'. GetOrCreate store_client 0 (world_of [] [marked_route])
             = (Return (res, True, None), w') \<and>
             object_at w' res = Some marked_route \<and> store w' = [marked_route] \<and>
             calls w' = [GetCall ''openshift-console'' ''console'',
                         CreateCall ''openshift-console'' marked_route]) \<and>
   (\<exists>w'. GetOrCreate (faulty_client (Some (StoreError ''forbidden'')) None) 0
             (world_of [] [marked_route])
           = (Return (None, False, Some (StoreError ''forbidden'')), w') \<and>
           store w' = [] \<and> calls w' = [GetCall ''openshift-console'' ''console''])"
  using GetOrCreate_get_or_create
          [of 0 "world_of [with_host ''old.example.com'' marked_route] [marked_route]"
              marked_route "''openshift-console''" "''console''" store_client
              "Some (with_host ''old.example.com'' marked_route)" None
              "[with_host ''old.example.com'' marked_route]"
              None "Some (StoreError ''already exists'')"
              "[with_host ''old.example.com'' marked_route]"]
        GetOrCreate_get_or_create
          [of 0 "world_of [] [marked_route]"
              marked_route "''openshift-console''" "''console''" store_client
              None "Some NotFound" "[]" "Some marked_route" None "[marked_route]"]
        GetOrCreate_get_or_create
          [of 0 "world_of [] [marked_route]"
              marked_route "''openshift-console''" "''console''"
              "faulty_client (Some (StoreError ''forbidden'')) None"
              None "Some (StoreError ''forbidden'')" "[]" "Some marked_route" None
              "[marked_route]"]
  by (simp add: fixture_defs collaborator_defs)

text \<open>
  Claim C10. For every required route, when the fetch of \<^verbatim>\<open>GetOrCreate\<close> reports
  not-found and the Create then fails, the result is a nil route, the flag \<open>True\<close> and the
  error of the Create.
\<close>

theorem GetOrCreate_create_failed:
  assumes "required < length (heap w)"
    and "heap w ! required = req"
    and "meta_Namespace (route_ObjectMeta req) = ns"
    and "meta_Name (route_ObjectMeta req) = name"
    and "client_Get client ns name (store w) = ((obj, Some NotFound), s1)"
    and "client_Create client ns req s1 = ((created, Some e), s2)"
  shows "\<exists>w'. GetOrCreate client required w = (Return (None, True, Some e), w') \<and>
          store w' = s2 \<and> calls w' = calls w @ [GetCall ns name, CreateCall ns req]"
  using GetOrCreate_cases [OF assms] by (auto simp: object_at_def)

theorem GetOrCreate_create_failed_witness:
  "\<exists>w'. GetOrCreate (faulty_client None (Some (StoreError ''forbidden''))) 0
            (world_of [] [marked_route])
          = (Return (None, True, Some (StoreError ''forbidden'')), w') \<and>
          store w' = [] \<and>
          calls w' = [GetCall ''openshift-console'' ''console'',
                      CreateCall ''openshift-console'' marked_route]"
  using GetOrCreate_create_failed
          [of 0 "world_of [] [marked_route]"
              marked_route "''openshift-console''" "''console''"
              "faulty_client None (Some (StoreError ''forbidden''))"
              None "[]" None "StoreError ''forbidden''" "[]"]
  by (simp add: fixture_defs collaborator_defs)

section \<open>Merging and repeated calls\<close>

text \<open>
  The statements of this section are about \<^verbatim>\<open>ApplyRoute\<close> with the functions of
  \<^verbatim>\<open>resourcemerge\<close>. First, what \<^verbatim>\<open>MergeMap\<close> does to a key: a key that no entry of
  the required map names is left alone; a plain key of the required map ends with the
  required value; the key of a removal marker ends absent; and a map that already agrees
  with the required one is left as it is, with the flag unchanged.
\<close>

lemma MergeMap_other:
  "\<forall>k' \<in> fst ` set required. k' \<noteq> k \<and> TrimRight k' ''-'' \<noteq> k \<Longrightarrow>
   map_of (snd (MergeMap m existing required)) k = map_of existing k"
proof (induction required arbitrary: m existing)
  case Nil
  then show ?case by simp
next
  case (Cons kv required)
  obtain k0 v0 where kv: "kv = (k0, v0)" by (cases kv)
  from Cons.prems kv have k0: "k0 \<noteq> k" "TrimRight k0 ''-'' \<noteq> k"
    and rest: "\<forall>k' \<in> fst ` set required. k' \<noteq> k \<and> TrimRight k' ''-'' \<noteq> k"
    by auto
  note IH = Cons.IH [OF rest]
  show ?case
    using k0 by (simp add: kv IH update_conv' delete_conv' split: option.splits)
qed



lemma HasSuffix_dash: "HasSuffix s ''-'' \<longleftrightarrow> s \<noteq> [] \<and> last s = CHR ''-''"
  by (cases s rule: rev_cases) (simp_all add: HasSuffix_def)

lemma TrimRight_plain: "\<not> HasSuffix k ''-'' \<Longrightarrow> TrimRight k ''-'' = k"
  by (cases k rule: rev_cases) (simp_all add: HasSuffix_dash TrimRight_def)

lemma MergeMap_other':
  assumes "k \<notin> fst ` set required"
    and "\<forall>k' \<in> fst ` set required. HasSuffix k' ''-'' \<longrightarrow> TrimRight k' ''-'' \<noteq> k"
  shows "map_of (snd (MergeMap m existing required)) k = map_of existing k"
proof (rule MergeMap_other, rule ballI)
  fix k' assume k': "k' \<in> fst ` set required"
  with assms(1) have "k' \<noteq> k" by auto
  moreover have "TrimRight k' ''-'' \<noteq> k"
  proof (cases "HasSuffix k' ''-''")
    case True
    with assms(2) k' show ?thesis by blast
  next
    case False
    with \<open>k' \<noteq> k\<close> show ?thesis by (simp add: TrimRight_plain)
  qed
  ultimately show "k' \<noteq> k \<and> TrimRight k' ''-'' \<noteq> k" ..
qed










lemma EnsureObjectMeta_other:
  "k \<notin> fst ` set (meta_Labels required) \<Longrightarrow>
   \<forall>k' \<in> fst ` set (meta_Labels required). HasSuffix k' ''-'' \<longrightarrow> TrimRight k' ''-'' \<noteq> k \<Longrightarrow>
     map_of (meta_Labels (snd (resourcemerge_EnsureObjectMeta m existing required))) k
       = map_of (meta_Labels existing) k"
  "k \<notin> fst ` set (meta_Annotations required) \<Longrightarrow>
   \<forall>k' \<in> fst ` set (meta_Annotations required).
      HasSuffix k' ''-'' \<longrightarrow> TrimRight k' ''-'' \<noteq> k \<Longrightarrow>
     map_of (meta_Annotations (snd (resourcemerge_EnsureObjectMeta m existing required))) k
       = map_of (meta_Annotations existing) k"
  by (simp_all add: resourcemerge_EnsureObjectMeta_def split_def Let_def MergeMap_other')


text \<open>
  Claim C4, as amended. The metadata merge of \<^verbatim>\<open>ApplyRoute\<close> keeps the keys that the
  desired object does not name. For every live route that the fetch returns and every
  desired route, a label key and an annotation key that the desired object does not have,
  and that no removal marker of the desired object names (no desired key that ends in a
  dash leaves this key when its trailing dashes are cut), read the same on the object that
  \<^verbatim>\<open>ApplyRoute\<close> returns unchanged, or sends to Update, as on the live object.
\<close>

theorem ApplyRoute_merge_additive:
  assumes "required < length (heap w)"
    and "heap w ! required = req"
    and "meta_Namespace (route_ObjectMeta req) = ns"
    and "meta_Name (route_ObjectMeta req) = name"
    and "client_Get client ns name (store w) = ((Some live, None), s1)"
    and "lib_EnsureObjectMeta l = resourcemerge_EnsureObjectMeta"
    and "k \<notin> fst ` set (meta_Labels (route_ObjectMeta req))"
    and "\<forall>k' \<in> fst ` set (meta_Labels (route_ObjectMeta req)).
           HasSuffix k' ''-'' \<longrightarrow> TrimRight k' ''-'' \<noteq> k"
    and "ka \<notin> fst ` set (meta_Annotations (route_ObjectMeta req))"
    and "\<forall>k' \<in> fst ` set (meta_Annotations (route_ObjectMeta req)).
           HasSuffix k' ''-'' \<longrightarrow> TrimRight k' ''-'' \<noteq> ka"
  shows "\<exists>res changed err w' obj.
           ApplyRoute l client required w = (Return (res, changed, err), w') \<and>
           (if changed then calls w' = calls w @ [GetCall ns name, UpdateCall ns obj]
            else object_at w' res = Some obj \<and> calls w' = calls w @ [GetCall ns name]) \<and>
           map_of (meta_Labels (route_ObjectMeta obj)) k
             = map_of (meta_Labels (route_ObjectMeta live)) k \<and>
           map_of (meta_Annotations (route_ObjectMeta obj)) ka
             = map_of (meta_Annotations (route_ObjectMeta live)) ka"
proof -
  obtain modified meta where merge:
    "lib_EnsureObjectMeta l False (route_ObjectMeta live) (route_ObjectMeta req) = (modified, meta)"
    by (cases "lib_EnsureObjectMeta l False (route_ObjectMeta live) (route_ObjectMeta req)")
  obtain actual err s2 where update:
    "client_Update client ns (live\<lparr>route_ObjectMeta := meta, route_Spec := route_Spec req\<rparr>) s1
       = ((actual, err), s2)"
    by (metis surj_pair)
  have meta: "meta = snd (resourcemerge_EnsureObjectMeta False (route_ObjectMeta live)
                            (route_ObjectMeta req))"
    using merge assms(6) by simp
  have labels: "map_of (meta_Labels meta) k = map_of (meta_Labels (route_ObjectMeta live)) k"
    unfolding meta using assms(7,8) by (rule EnsureObjectMeta_other)
  have annotations:
    "map_of (meta_Annotations meta) ka = map_of (meta_Annotations (route_ObjectMeta live)) ka"
    unfolding meta using assms(9,10) by (rule EnsureObjectMeta_other)
  from ApplyRoute_found [OF assms(1-5) merge update] obtain res w' where
    ap: "ApplyRoute l client required w =
       (Return (if lib_DeepEqual l (route_Spec live) (route_Spec req) \<and> \<not> modified
                then (res, False, None) else (res, True, err)), w')"
    and obj: "object_at w' res =
       (if lib_DeepEqual l (route_Spec live) (route_Spec req) \<and> \<not> modified
        then Some (live\<lparr>route_ObjectMeta := meta\<rparr>) else actual)"
    and cs: "calls w' = calls w @
       (if lib_DeepEqual l (route_Spec live) (route_Spec req) \<and> \<not> modified
        then [GetCall ns name]
        else [GetCall ns name,
              UpdateCall ns (live\<lparr>route_ObjectMeta := meta, route_Spec := route_Spec req\<rparr>)])"
    by blast
  show ?thesis
  proof (cases "lib_DeepEqual l (route_Spec live) (route_Spec req) \<and> \<not> modified")
    case True
    with ap obj cs labels annotations show ?thesis
      by (intro exI [of _ res] exI [of _ False] exI [of _ None] exI [of _ w']
            exI [of _ "live\<lparr>route_ObjectMeta := meta\<rparr>"]) simp
  next
    case False
    with ap obj cs labels annotations show ?thesis
      by (intro exI [of _ res] exI [of _ True] exI [of _ err] exI [of _ w']
            exI [of _ "live\<lparr>route_ObjectMeta := meta, route_Spec := route_Spec req\<rparr>"]) simp
  qed
qed

theorem ApplyRoute_merge_additive_witness:
  "\<exists>res changed err w' obj.
     ApplyRoute resourcemerge store_client 0
       (world_of [with_annotation ''note'' ''kept''
                    (with_label ''stray'' ''1'' (with_host ''old.example.com'' desired_route))]
          [marked_route])
       = (Return (res, changed, err), w') \<and>
     (if changed
      then calls w' = [GetCall ''openshift-console'' ''console'',
                       UpdateCall ''openshift-console'' obj]
      else object_at w' res = Some obj \<and>
           calls w' = [GetCall ''openshift-console'' ''console'']) \<and>
     map_of (meta_Labels (route_ObjectMeta obj)) ''stray'' = Some ''1'' \<and>
     map_of (meta_Annotations (route_ObjectMeta obj)) ''note'' = Some ''kept''"
proof -
  let ?live = "with_annotation ''note'' ''kept''
                 (with_label ''stray'' ''1'' (with_host ''old.example.com'' desired_route))"
  let ?w = "world_of [?live] [marked_route]"
  have valid: "0 < length (heap ?w)" and req: "heap ?w ! 0 = marked_route"
    by (simp_all add: world_of_def)
  have ns: "meta_Namespace (route_ObjectMeta marked_route) = ''openshift-console''"
    and name: "meta_Name (route_ObjectMeta marked_route) = ''console''"
    by (simp_all add: fixture_defs)
  have get: "client_Get store_client ''openshift-console'' ''console'' (store ?w)
               = ((Some ?live, None), [?live])"
    by (simp add: fixture_defs collaborator_defs)
  have ensure: "lib_EnsureObjectMeta resourcemerge = resourcemerge_EnsureObjectMeta"
    by (simp add: resourcemerge_def)
  have absent: "''stray'' \<notin> fst ` set (meta_Labels (route_ObjectMeta marked_route))"
    "\<forall>k' \<in> fst ` set (meta_Labels (route_ObjectMeta marked_route)).
       HasSuffix k' ''-'' \<longrightarrow> TrimRight k' ''-'' \<noteq> ''stray''"
    "''note'' \<notin> fst ` set (meta_Annotations (route_ObjectMeta marked_route))"
    "\<forall>k' \<in> fst ` set (meta_Annotations (route_ObjectMeta marked_route)).
       HasSuffix k' ''-'' \<longrightarrow> TrimRight k' ''-'' \<noteq> ''note''"
    by (simp_all add: fixture_defs HasSuffix_def TrimRight_def)
  have live: "map_of (meta_Labels (route_ObjectMeta ?live)) ''stray'' = Some ''1''"
    "map_of (meta_Annotations (route_ObjectMeta ?live)) ''note'' = Some ''kept''"
    "calls ?w = []"
    by (simp_all add: fixture_defs)
  from ApplyRoute_merge_additive [OF valid req ns name get ensure absent]
  show ?thesis
    unfolding live append_Nil .
qed

text \<open>
  For every key that is absent from the desired object the statement fails. The live
  route has the label \<open>stray\<close>; the desired route has no label \<open>stray\<close> but the removal
  marker \<open>stray-\<close>. The merge deletes \<open>stray\<close>, and the object sent to Update is without
  it.
\<close>

theorem ApplyRoute_merge_removes:
  "map_of (meta_Labels (route_ObjectMeta (with_label ''stray'' ''1'' desired_route))) ''stray''
     = Some ''1'' \<and>
   ''stray'' \<notin> fst ` set (meta_Labels (route_ObjectMeta (with_label ''stray-'' '''' desired_route))) \<and>
   calls (snd (ApplyRoute resourcemerge store_client 0
                 (world_of [with_label ''stray'' ''1'' desired_route]
                    [with_label ''stray-'' '''' desired_route])))
     = [GetCall ''openshift-console'' ''console'',
        UpdateCall ''openshift-console'' desired_route] \<and>
   map_of (meta_Labels (route_ObjectMeta desired_route)) ''stray'' = None"
  by (simp add: ApplyRoute_def world_ops IsNotFound_def Let_def fixture_defs collaborator_defs)




end
